theory Spec2Isabelle
  imports Complex_Main "HOL-Library.Char_ord" "HOL-Library.List_Lexorder"
begin

section \<open>Shared Python notions\<close>

text \<open>
  The exceptions of the Python runtime that the modelled functions can raise.
\<close>

datatype py_error = AttributeError | TypeError | IndexError | KeyError | ValueError

text \<open>
  A key of a Python dictionary read from JSON: the key is absent, it is present with the
  value \<open>None\<close> (JSON \<open>null\<close>), or it is present with a value.
\<close>

datatype 'a field = Absent | Null | Val 'a

text \<open>
  \<open>d.get(key, default)\<close>: the default only replaces an absent key; a key that is present
  with \<open>None\<close> yields \<open>None\<close> (here \<open>None :: 'a option\<close>).
\<close>

fun get_default :: "'a field \<Rightarrow> 'a \<Rightarrow> 'a option" where
  "get_default Absent d = Some d"
| "get_default Null d = None"
| "get_default (Val v) d = Some v"

text \<open>\<open>s.startswith(p)\<close> and \<open>s.startswith((p1, p2, ...))\<close>.\<close>

definition startswith :: "string \<Rightarrow> string \<Rightarrow> bool" where
  "startswith s p = (take (length p) s = p)"

definition startswith_any :: "string \<Rightarrow> string list \<Rightarrow> bool" where
  "startswith_any s ps = list_ex (startswith s) ps"

text \<open>
  One process dictionary, as \<open>psutil\<close> produces it on the agent and as the collector
  reads it back from the wire. Only the keys that the code reads are kept
  (\<open>memory_percent\<close> and \<open>status\<close> are carried along and never inspected).
  \<open>psutil\<close> stores \<open>None\<close> under a key whose read was denied.
\<close>

record proc =
  pid :: "int field"
  name :: "string field"
  cpu_percent :: "real field"

text \<open>
  \<open>sorted(xs, key=k, reverse=True)\<close> where the key may be \<open>None\<close>: Python's sort is
  stable, also with \<open>reverse=True\<close>, and it compares every element at least once as
  soon as there are two of them; comparing \<open>None\<close> raises \<open>TypeError\<close>.
  A stable descending sort is the stable ascending sort on the negated key.
\<close>

definition neg_key :: "('a \<Rightarrow> real option) \<Rightarrow> 'a \<Rightarrow> real" where
  "neg_key k x = (case k x of None \<Rightarrow> 0 | Some c \<Rightarrow> - c)"

definition sorted_reverse :: "('a \<Rightarrow> real option) \<Rightarrow> 'a list \<Rightarrow> py_error + 'a list" where
  "sorted_reverse k xs =
     (if 2 \<le> length xs \<and> list_ex (\<lambda>x. k x = None) xs then Inl TypeError
      else Inr (sort_key (neg_key k) xs))"

section \<open>Agent: \<open>src/Agent/Agent.py\<close>\<close>

subsection \<open>\<open>get_real_ip\<close>\<close>

text \<open>
  The host's network as the three methods see it. \<open>None\<close> stands for a raised
  exception (each method's \<open>try\<close> catches every \<open>Exception\<close>).
  \<^item> \<open>sock_name\<close>: \<open>s.getsockname()[0]\<close> after the UDP connect to 8.8.8.8;
  \<^item> \<open>net_if_addrs\<close>: the items of \<open>psutil.net_if_addrs()\<close>, in dictionary order;
  \<^item> \<open>host_by_name\<close>: \<open>socket.gethostbyname(socket.gethostname())\<close>.
\<close>

datatype family = AF_INET | AF_INET6 | AF_PACKET

record snicaddr =
  addr_family :: family
  address :: string

record network =
  sock_name :: "string option"
  net_if_addrs :: "(string \<times> snicaddr list) list option"
  host_by_name :: "string option"

fun scan_addr_list :: "snicaddr list \<Rightarrow> string option" where
  "scan_addr_list [] = None"
| "scan_addr_list (addr # rest) =
     (if addr_family addr = AF_INET \<and> \<not> startswith_any (address addr) [''127.'', ''169.254.'']
      then Some (address addr)
      else scan_addr_list rest)"

fun scan_interfaces :: "(string \<times> snicaddr list) list \<Rightarrow> string option" where
  "scan_interfaces [] = None"
| "scan_interfaces ((interface, addr_list) # rest) =
     (if startswith_any interface [''lo'', ''docker'', ''br-'', ''veth'']
      then scan_interfaces rest
      else (case scan_addr_list addr_list of
              Some ip \<Rightarrow> Some ip
            | None \<Rightarrow> scan_interfaces rest))"

definition method2 :: "network \<Rightarrow> string option" where
  "method2 net = (case net_if_addrs net of None \<Rightarrow> None | Some addrs \<Rightarrow> scan_interfaces addrs)"

definition method3 :: "network \<Rightarrow> string option" where
  "method3 net =
     (case host_by_name net of
        None \<Rightarrow> None
      | Some ip \<Rightarrow> if \<not> startswith ip ''127.'' then Some ip else None)"

definition get_real_ip :: "network \<Rightarrow> string" where
  "get_real_ip net =
     (case sock_name net of
        Some ip \<Rightarrow> ip
      | None \<Rightarrow>
          (case method2 net of
             Some ip \<Rightarrow> ip
           | None \<Rightarrow>
               (case method3 net of
                  Some ip \<Rightarrow> ip
                | None \<Rightarrow> ''127.0.0.1'')))"

subsection \<open>\<open>collect_system_info\<close>: the process list\<close>

text \<open>
  What a call into \<open>psutil\<close> for one process does: it returns, it raises one of
  \<open>NoSuchProcess\<close>, \<open>AccessDenied\<close>, \<open>ZombieProcess\<close> (caught per process), or it
  raises something else (caught by the outer handler, which leaves \<open>processes = []\<close>).
\<close>

datatype 'a psutil_call = Returns 'a | ProcessGone | OtherException

text \<open>
  A process of the second iteration: its \<open>proc.info\<close> dictionary and what
  \<open>proc.cpu_percent(interval=0.1)\<close> would do if it is called.
\<close>

record visible =
  info :: proc
  blocking_cpu :: "real psutil_call"

record host_processes =
  first_pass :: "real psutil_call list"
  second_pass :: "visible list"

text \<open>
  The second loop. \<open>pinfo['cpu_percent']\<close> raises \<open>KeyError\<close> on an absent key, which
  only the outer handler catches; \<open>None == 0\<close> is false.
\<close>

fun process_list :: "visible list \<Rightarrow> proc list option" where
  "process_list [] = Some []"
| "process_list (v # vs) =
     (case cpu_percent (info v) of
        Absent \<Rightarrow> None
      | Null \<Rightarrow> map_option (Cons (info v)) (process_list vs)
      | Val c \<Rightarrow>
          if c = 0 then
            (case blocking_cpu v of
               Returns c' \<Rightarrow> map_option (Cons ((info v)\<lparr>cpu_percent := Val c'\<rparr>)) (process_list vs)
             | ProcessGone \<Rightarrow> process_list vs
             | OtherException \<Rightarrow> None)
          else map_option (Cons (info v)) (process_list vs))"

definition cpu_key :: "proc \<Rightarrow> real option" where
  "cpu_key p = get_default (cpu_percent p) 0"

definition collect_processes :: "host_processes \<Rightarrow> proc list" where
  "collect_processes h =
     (if list_ex (\<lambda>r. r = OtherException) (first_pass h) then []
      else (case process_list (second_pass h) of
              None \<Rightarrow> []
            | Some pl \<Rightarrow>
                (case sorted_reverse cpu_key pl of
                   Inl e \<Rightarrow> []
                 | Inr s \<Rightarrow> take 10 s)))"

subsection \<open>\<open>send_to_api\<close>\<close>

text \<open>
  What one \<open>requests.post\<close> does: it returns a response with a status code, or it raises.
  The server is a function from the 0-based attempt index to that outcome.
  The trace records what the function did: the number of POSTs and the arguments of
  \<open>time.sleep\<close>, in order. \<open>time.sleep\<close> raises \<open>ValueError\<close> on a negative argument,
  outside the \<open>try\<close>.
\<close>

datatype post_outcome = Response int | PostRaises

record trace =
  posts :: nat
  slept :: "int list"

fun send_loop ::
  "(nat \<Rightarrow> post_outcome) \<Rightarrow> int \<Rightarrow> int \<Rightarrow> nat \<Rightarrow> nat \<Rightarrow> trace \<Rightarrow> trace \<times> (py_error + bool)" where
  "send_loop server retries backoff attempt 0 tr = (tr, Inr False)"
| "send_loop server retries backoff attempt (Suc n) tr =
     (let tr1 = tr\<lparr>posts := posts tr + 1\<rparr> in
      if server attempt = Response 200 then (tr1, Inr True)
      else if int attempt < retries - 1 then
        (let d = backoff * 2 ^ attempt in
         if d < 0 then (tr1, Inl ValueError)
         else send_loop server retries backoff (Suc attempt) n (tr1\<lparr>slept := slept tr1 @ [d]\<rparr>))
      else send_loop server retries backoff (Suc attempt) n tr1)"

definition send_to_api :: "(nat \<Rightarrow> post_outcome) \<Rightarrow> int \<Rightarrow> int \<Rightarrow> trace \<times> (py_error + bool)" where
  "send_to_api server retries backoff =
     send_loop server retries backoff 0 (nat retries) \<lparr>posts = 0, slept = []\<rparr>"

text \<open>A server that answers every attempt the same way.\<close>

definition always :: "post_outcome \<Rightarrow> nat \<Rightarrow> post_outcome" where
  "always r i = r"

text \<open>The order that \<open>sorted(..., reverse=True)\<close> on \<open>cpu_percent\<close> establishes.\<close>

definition cpu_ge :: "proc \<Rightarrow> proc \<Rightarrow> bool" where
  "cpu_ge p q = (case (cpu_key p, cpu_key q) of (Some a, Some b) \<Rightarrow> b \<le> a | _ \<Rightarrow> False)"

definition is_2xx :: "post_outcome \<Rightarrow> bool" where
  "is_2xx r = (case r of Response c \<Rightarrow> 200 \<le> c \<and> c < 300 | PostRaises \<Rightarrow> False)"

section \<open>Collector: \<open>get_stats\<close> in \<open>src/Api/Api.py\<close>\<close>

subsection \<open>Stored records\<close>

text \<open>
  A stored record is the \<open>SystemInfo\<close> body plus \<open>received_at\<close>. The keys that
  \<open>SystemInfo\<close> requires are plain values; \<open>agent_id\<close> is \<open>Optional[str]\<close> (and a
  file written by the older collector has no such key), and the keys that the code reads
  through \<open>.get\<close> are fields. Strings are compared as Python compares them, by code
  point; the timestamps are ASCII.
\<close>

record frequency_dict =
  current :: "real field"

record cpu_dict =
  count :: "int field"
  frequency :: "frequency_dict field"
  model :: "string field"

record os_dict =
  os_name :: "string field"

record user =
  user_name :: string
  terminal :: string
  host :: string
  started :: real

record entry =
  ip :: string
  agent_id :: "string field"
  cpu :: cpu_dict
  processes :: "proc list"
  users :: "user list"
  os :: os_dict
  timestamp :: string
  received_at :: "string field"

text \<open>
  The clock and the two \<open>datetime\<close> library functions that the code calls.
  \<open>fromisoformat\<close> gives the instant in seconds, \<open>None\<close> when it raises \<open>ValueError\<close>;
  \<open>now\<close> is in the same seconds and is read once for the whole call.
\<close>

record clock =
  now :: real
  fromisoformat :: "string \<Rightarrow> real option"
  isoformat :: "real \<Rightarrow> string"

subsection \<open>Python helpers\<close>

definition and_then :: "py_error + 'a \<Rightarrow> ('a \<Rightarrow> py_error + 'b) \<Rightarrow> py_error + 'b" where
  "and_then r f = (case r of Inl e \<Rightarrow> Inl e | Inr v \<Rightarrow> f v)"

text \<open>A list comprehension \<open>[f(x) for x in xs]\<close> whose body may raise.\<close>

fun comprehension :: "('a \<Rightarrow> py_error + 'b) \<Rightarrow> 'a list \<Rightarrow> py_error + 'b list" where
  "comprehension f [] = Inr []"
| "comprehension f (x # xs) =
     (case f x of
        Inl e \<Rightarrow> Inl e
      | Inr v \<Rightarrow> (case comprehension f xs of Inl e \<Rightarrow> Inl e | Inr vs \<Rightarrow> Inr (v # vs)))"

text \<open>A list comprehension \<open>[x for x in xs if c(x)]\<close> whose condition may raise.\<close>

fun comprehension_if :: "('a \<Rightarrow> py_error + bool) \<Rightarrow> 'a list \<Rightarrow> py_error + 'a list" where
  "comprehension_if c [] = Inr []"
| "comprehension_if c (x # xs) =
     (case c x of
        Inl e \<Rightarrow> Inl e
      | Inr b \<Rightarrow>
          (case comprehension_if c xs of
             Inl e \<Rightarrow> Inl e
           | Inr vs \<Rightarrow> Inr (if b then x # vs else vs)))"

text \<open>\<open>sum(xs)\<close>: adding \<open>None\<close> raises \<open>TypeError\<close>.\<close>

fun py_sum :: "real option list \<Rightarrow> py_error + real" where
  "py_sum [] = Inr 0"
| "py_sum (None # xs) = Inl TypeError"
| "py_sum (Some x # xs) = (case py_sum xs of Inl e \<Rightarrow> Inl e | Inr s \<Rightarrow> Inr (x + s))"

text \<open>\<open>int(x)\<close> on a float truncates towards zero.\<close>

definition py_int :: "real \<Rightarrow> int" where
  "py_int x = (if 0 \<le> x then \<lfloor>x\<rfloor> else \<lceil>x\<rceil>)"

text \<open>The slice \<open>xs[-n:]\<close> for positive \<open>n\<close>.\<close>

definition last_n :: "nat \<Rightarrow> 'a list \<Rightarrow> 'a list" where
  "last_n n xs = drop (length xs - n) xs"

text \<open>
  A Python \<open>dict\<close> keeps its keys in insertion order, and assigning to a key that is
  already there keeps the key's place.
\<close>

fun dict_set :: "'k \<Rightarrow> 'v \<Rightarrow> ('k \<times> 'v) list \<Rightarrow> ('k \<times> 'v) list" where
  "dict_set k v [] = [(k, v)]"
| "dict_set k v ((k', v') # d) = (if k' = k then (k, v) # d else (k', v') # dict_set k v d)"

definition dict_get :: "('k \<times> 'v) list \<Rightarrow> 'k \<Rightarrow> 'v \<Rightarrow> 'v" where
  "dict_get d k dflt = (case map_of d k of None \<Rightarrow> dflt | Some v \<Rightarrow> v)"

text \<open>\<open>s.split('T')[1]\<close>: the text between the first and the second \<open>T\<close>.\<close>

definition split_T_1 :: "string \<Rightarrow> py_error + string" where
  "split_T_1 s =
     (case dropWhile (\<lambda>c. c \<noteq> CHR ''T'') s of
        [] \<Rightarrow> Inl IndexError
      | t # rest \<Rightarrow> Inr (takeWhile (\<lambda>c. c \<noteq> CHR ''T'') rest))"

subsection \<open>Active agents\<close>

text \<open>
  The body of the \<open>try\<close>: \<open>None\<close> when \<open>fromisoformat\<close> raises (on \<open>None\<close> or on a string
  it cannot parse), which the bare \<open>except\<close> catches.
\<close>

definition item_time :: "clock \<Rightarrow> entry \<Rightarrow> real option" where
  "item_time clk item =
     (case received_at item of
        Absent \<Rightarrow> fromisoformat clk (timestamp item)
      | Null \<Rightarrow> None
      | Val s \<Rightarrow> fromisoformat clk s)"

text \<open>\<open>item.get('agent_id')\<close> when it is truthy: a non-empty string.\<close>

definition truthy_agent_id :: "entry \<Rightarrow> string option" where
  "truthy_agent_id item = (case agent_id item of Val a \<Rightarrow> if a \<noteq> [] then Some a else None | _ \<Rightarrow> None)"

definition recent_step :: "clock \<Rightarrow> entry \<Rightarrow> string set \<Rightarrow> string set" where
  "recent_step clk item agents =
     (case item_time clk item of
        Some t \<Rightarrow>
          (case truthy_agent_id item of
             Some a \<Rightarrow> if t > now clk - 300 then insert a agents else agents
           | None \<Rightarrow> agents)
      | None \<Rightarrow>
          (case truthy_agent_id item of
             Some a \<Rightarrow> insert a agents
           | None \<Rightarrow> agents))"

definition recent_agents :: "clock \<Rightarrow> entry list \<Rightarrow> string set" where
  "recent_agents clk data = fold (recent_step clk) data {}"

subsection \<open>Average CPU frequency and timeline\<close>

text \<open>\<open>item.get('cpu')\<close> is truthy when the dictionary has a key.\<close>

definition cpu_truthy :: "cpu_dict \<Rightarrow> bool" where
  "cpu_truthy c = (count c \<noteq> Absent \<or> frequency c \<noteq> Absent \<or> model c \<noteq> Absent)"

text \<open>\<open>item['cpu'].get('frequency', {}).get('current', 0)\<close>\<close>

definition frequency_current :: "entry \<Rightarrow> py_error + real option" where
  "frequency_current item =
     (case frequency (cpu item) of
        Absent \<Rightarrow> Inr (Some 0)
      | Null \<Rightarrow> Inl AttributeError
      | Val f \<Rightarrow> Inr (get_default (current f) 0))"

definition cpu_freqs :: "entry list \<Rightarrow> py_error + real option list" where
  "cpu_freqs data = comprehension frequency_current (filter (\<lambda>item. cpu_truthy (cpu item)) data)"

definition avg_cpu :: "entry list \<Rightarrow> py_error + real" where
  "avg_cpu data =
     and_then (cpu_freqs data) (\<lambda>fs.
       if fs \<noteq> [] then and_then (py_sum fs) (\<lambda>s. Inr (s / real (length fs))) else Inr 0)"

definition recent_data :: "entry list \<Rightarrow> entry list" where
  "recent_data data = last_n 20 (sort_key timestamp data)"

definition cpu_timeline :: "entry list \<Rightarrow> py_error + (string list \<times> real option list)" where
  "cpu_timeline data =
     and_then (comprehension (\<lambda>item. and_then (split_T_1 (timestamp item)) (\<lambda>t. Inr (take 8 t)))
                 (recent_data data)) (\<lambda>labels.
     and_then (comprehension frequency_current (recent_data data)) (\<lambda>freqs.
       Inr (labels, freqs)))"

subsection \<open>OS and IP distribution\<close>

text \<open>\<open>item.get('agent_id', item.get('ip'))\<close>, and the test \<open>if agent_id:\<close>.\<close>

definition dedup_key :: "entry \<Rightarrow> string option" where
  "dedup_key item =
     (case get_default (agent_id item) (ip item) of
        None \<Rightarrow> None
      | Some a \<Rightarrow> if a \<noteq> [] then Some a else None)"

definition os_name_of :: "entry \<Rightarrow> string option" where
  "os_name_of item = get_default (os_name (os item)) ''Unknown''"

text \<open>
  The two loops \<open>for item in data: ... if agent_id: d[agent_id] = f(item)\<close>, which differ
  only in the value \<open>f(item)\<close> that they store; they run over \<open>data\<close> as it was read.
\<close>

definition agent_step :: "(entry \<Rightarrow> 'v) \<Rightarrow> entry \<Rightarrow> (string \<times> 'v) list \<Rightarrow> (string \<times> 'v) list" where
  "agent_step f item d = (case dedup_key item of Some a \<Rightarrow> dict_set a (f item) d | None \<Rightarrow> d)"

definition by_agent :: "(entry \<Rightarrow> 'v) \<Rightarrow> entry list \<Rightarrow> (string \<times> 'v) list" where
  "by_agent f data = fold (agent_step f) data []"

definition os_by_agent :: "entry list \<Rightarrow> (string \<times> string option) list" where
  "os_by_agent data = by_agent os_name_of data"

definition ip_by_agent :: "entry list \<Rightarrow> (string \<times> string) list" where
  "ip_by_agent data = by_agent ip data"

text \<open>The counting loop \<open>counts[v] = counts.get(v, 0) + 1\<close> over the values of a dictionary.\<close>

definition count_step :: "'v \<Rightarrow> ('v \<times> nat) list \<Rightarrow> ('v \<times> nat) list" where
  "count_step v counts = dict_set v (dict_get counts v 0 + 1) counts"

definition count_values :: "'v list \<Rightarrow> ('v \<times> nat) list" where
  "count_values vs = fold count_step vs []"

definition os_counts :: "entry list \<Rightarrow> (string option \<times> nat) list" where
  "os_counts data = count_values (map snd (os_by_agent data))"

definition ip_counts :: "entry list \<Rightarrow> (string \<times> nat) list" where
  "ip_counts data = count_values (map snd (ip_by_agent data))"

text \<open>The pair is the dictionary \<open>{"labels": ..., "data": ...}\<close>.\<close>

definition os_distribution :: "entry list \<Rightarrow> string option list \<times> nat list" where
  "os_distribution data = (map fst (os_counts data), map snd (os_counts data))"

definition ip_activity :: "entry list \<Rightarrow> string list \<times> nat list" where
  "ip_activity data = (map fst (ip_counts data), map snd (ip_counts data))"

subsection \<open>Recent processes and users\<close>

definition latest_data :: "entry list \<Rightarrow> entry list" where
  "latest_data data = last_n 10 (sort_key timestamp data)"

text \<open>
  A row of \<open>all_processes\<close>. \<open>row_name\<close>, \<open>row_pid\<close> and \<open>row_cpu\<close> are the keys
  \<open>name\<close>, \<open>pid\<close> and \<open>cpu_percent\<close>, each possibly \<open>None\<close>.
\<close>

record proc_row =
  row_name :: "string option"
  row_pid :: "int option"
  row_cpu :: "real option"
  row_ip :: string
  row_timestamp :: string

definition process_row :: "entry \<Rightarrow> proc \<Rightarrow> proc_row" where
  "process_row item p =
     \<lparr>row_name = get_default (name p) ''Unknown'',
      row_pid = get_default (pid p) 0,
      row_cpu = get_default (cpu_percent p) 0,
      row_ip = ip item,
      row_timestamp = timestamp item\<rparr>"

definition all_processes :: "entry list \<Rightarrow> proc_row list" where
  "all_processes data = concat (map (\<lambda>item. map (process_row item) (processes item)) (latest_data data))"

definition top_processes_list :: "entry list \<Rightarrow> py_error + proc_row list" where
  "top_processes_list data = and_then (sorted_reverse row_cpu (all_processes data)) (\<lambda>s. Inr (take 10 s))"

text \<open>
  The label \<open>f"{name} (PID: {pid})"\<close> is kept as the pair of the two values it prints.
\<close>

definition top_processes :: "proc_row list \<Rightarrow> (string option \<times> int option) list \<times> real option list" where
  "top_processes tops = (map (\<lambda>p. (row_name p, row_pid p)) tops, map row_cpu tops)"

text \<open>The comparisons \<open>cpu > c\<close> and \<open>lo < cpu <= hi\<close>; \<open>None\<close> raises \<open>TypeError\<close>.\<close>

definition cpu_above :: "real \<Rightarrow> proc_row \<Rightarrow> py_error + bool" where
  "cpu_above c p = (case row_cpu p of None \<Rightarrow> Inl TypeError | Some x \<Rightarrow> Inr (x > c))"

definition cpu_between :: "real \<Rightarrow> real \<Rightarrow> proc_row \<Rightarrow> py_error + bool" where
  "cpu_between lo hi p = (case row_cpu p of None \<Rightarrow> Inl TypeError | Some x \<Rightarrow> Inr (lo < x \<and> x \<le> hi))"

definition high_cpu_processes :: "proc_row list \<Rightarrow> py_error + proc_row list" where
  "high_cpu_processes rows = and_then (comprehension_if (cpu_above 50) rows) (\<lambda>hs. Inr (take 20 hs))"

definition total_processes :: "proc_row list \<Rightarrow> nat" where
  "total_processes rows = card (set (map row_name rows))"

record user_row = user +
  user_ip :: string

definition user_copy :: "entry \<Rightarrow> user \<Rightarrow> user_row" where
  "user_copy item u =
     \<lparr>user_name = user_name u, terminal = terminal u, host = host u, started = started u,
      user_ip = ip item\<rparr>"

definition all_users :: "entry list \<Rightarrow> user_row list" where
  "all_users data = concat (map (\<lambda>item. map (user_copy item) (users item)) (latest_data data))"

definition user_key :: "user_row \<Rightarrow> string" where
  "user_key u = user_name u @ ''-'' @ terminal u @ ''-'' @ user_ip u"

fun unique_loop :: "user_row list \<Rightarrow> string set \<Rightarrow> user_row list" where
  "unique_loop [] seen = []"
| "unique_loop (u # us) seen =
     (if user_key u \<notin> seen then u # unique_loop us (insert (user_key u) seen)
      else unique_loop us seen)"

definition unique_users :: "entry list \<Rightarrow> user_row list" where
  "unique_users data = unique_loop (all_users data) {}"

subsection \<open>Alerts\<close>

text \<open>
  The icons are emoji and the messages are Spanish sentences with one number formatted
  into them; an alert keeps the icon's name and the sentence with its number.
  \<^item> \<open>CriticalCpu n\<close>: "n proceso(s) con CPU critico (>80%)";
  \<^item> \<open>ElevatedCpu n\<close>: "n proceso(s) con CPU elevado (50-80%)";
  \<^item> \<open>NoData m\<close>: "No se han recibido datos en m minuto(s)".
\<close>

datatype icon = RedCircle | YellowCircle | AlarmClock

datatype message = CriticalCpu nat | ElevatedCpu nat | NoData int

record alert =
  alert_type :: string
  alert_icon :: icon
  alert_message :: message

definition critical_processes :: "proc_row list \<Rightarrow> py_error + proc_row list" where
  "critical_processes rows = comprehension_if (cpu_above 80) rows"

definition warning_processes :: "proc_row list \<Rightarrow> py_error + proc_row list" where
  "warning_processes rows = comprehension_if (cpu_between 50 80) rows"

definition critical_alert :: "proc_row list \<Rightarrow> alert list" where
  "critical_alert crit =
     (if crit \<noteq> []
      then [\<lparr>alert_type = ''danger'', alert_icon = RedCircle, alert_message = CriticalCpu (length crit)\<rparr>]
      else [])"

definition warning_alert :: "proc_row list \<Rightarrow> alert list" where
  "warning_alert warn =
     (if warn \<noteq> []
      then [\<lparr>alert_type = ''warning'', alert_icon = YellowCircle, alert_message = ElevatedCpu (length warn)\<rparr>]
      else [])"

text \<open>
  The last block, entered when \<open>data\<close> is not empty: \<open>data[-1]['received_at']\<close> raises
  \<open>KeyError\<close> on an absent key, \<open>fromisoformat\<close> raises \<open>TypeError\<close> on \<open>None\<close> and
  \<open>ValueError\<close> on a string it cannot parse.
\<close>

definition last_timestamp :: "clock \<Rightarrow> entry list \<Rightarrow> py_error + real" where
  "last_timestamp clk data =
     (case received_at (last data) of
        Absent \<Rightarrow> Inl KeyError
      | Null \<Rightarrow> Inl TypeError
      | Val s \<Rightarrow> (case fromisoformat clk s of None \<Rightarrow> Inl ValueError | Some t \<Rightarrow> Inr t))"

definition stale_alert :: "clock \<Rightarrow> entry list \<Rightarrow> py_error + alert list" where
  "stale_alert clk data =
     and_then (last_timestamp clk data) (\<lambda>t.
       let time_diff = now clk - t in
       if time_diff > 120
       then Inr [\<lparr>alert_type = ''warning'', alert_icon = AlarmClock,
                  alert_message = NoData (py_int (time_diff / 60))\<rparr>]
       else Inr [])"

definition alerts :: "clock \<Rightarrow> entry list \<Rightarrow> py_error + alert list" where
  "alerts clk data =
     and_then (critical_processes (all_processes data)) (\<lambda>crit.
     and_then (warning_processes (all_processes data)) (\<lambda>warn.
     and_then (stale_alert clk data) (\<lambda>stale.
       Inr (critical_alert crit @ warning_alert warn @ stale))))"

subsection \<open>The response\<close>

record stats =
  st_total_records :: nat
  st_active_agents :: nat
  st_avg_cpu :: real
  st_total_processes :: nat
  st_active_users :: nat
  st_last_update :: string
  st_cpu_timeline :: "string list \<times> real option list"
  st_os_distribution :: "string option list \<times> nat list"
  st_ip_activity :: "string list \<times> nat list"
  st_top_processes :: "(string option \<times> int option) list \<times> real option list"
  st_processes :: "proc_row list"
  st_users :: "user_row list"
  st_high_cpu_processes :: "proc_row list"
  st_alerts :: "alert list"

text \<open>
  \<open>get_stats\<close>, with the records that \<open>get_all_data_from_json\<close> returned as \<open>data\<close>.
  An \<open>Inl\<close> is an exception that leaves the handler. The steps run in the source's order.
  The final \<open>data[-1]['received_at']\<close> cannot raise: the staleness block has read it.
\<close>

definition get_stats :: "clock \<Rightarrow> entry list \<Rightarrow> py_error + stats" where
  "get_stats clk data =
     (if data = [] then
        Inr \<lparr>st_total_records = 0, st_active_agents = 0, st_avg_cpu = 0,
             st_total_processes = 0, st_active_users = 0,
             st_last_update = isoformat clk (now clk),
             st_cpu_timeline = ([], []), st_os_distribution = ([], []),
             st_ip_activity = ([], []), st_top_processes = ([], []),
             st_processes = [], st_users = [], st_high_cpu_processes = [], st_alerts = []\<rparr>
      else
        and_then (avg_cpu data) (\<lambda>avg.
        and_then (cpu_timeline data) (\<lambda>timeline.
        and_then (top_processes_list data) (\<lambda>tops.
        and_then (high_cpu_processes (all_processes data)) (\<lambda>high.
        and_then (alerts clk data) (\<lambda>al.
          Inr \<lparr>st_total_records = length data,
               st_active_agents = card (recent_agents clk data),
               st_avg_cpu = avg / 1000,
               st_total_processes = total_processes (all_processes data),
               st_active_users = length (unique_users data),
               st_last_update = (case received_at (last data) of Val s \<Rightarrow> s | _ \<Rightarrow> []),
               st_cpu_timeline = timeline,
               st_os_distribution = os_distribution data,
               st_ip_activity = ip_activity data,
               st_top_processes = top_processes tops,
               st_processes = tops,
               st_users = unique_users data,
               st_high_cpu_processes = high,
               st_alerts = al\<rparr>))))))"

section \<open>Vocabulary of the properties\<close>

subsection \<open>What the specification describes\<close>

text \<open>
  The mean of the specification: over exactly the records that report a frequency
  that is not null.
\<close>

definition reported_frequency :: "entry \<Rightarrow> real option" where
  "reported_frequency item =
     (case frequency (cpu item) of
        Val f \<Rightarrow> (case current f of Val x \<Rightarrow> Some x | _ \<Rightarrow> None)
      | _ \<Rightarrow> None)"

definition spec_mean_frequency :: "entry list \<Rightarrow> real" where
  "spec_mean_frequency data =
     (let fs = List.map_filter reported_frequency data
      in if fs = [] then 0 else sum_list fs / real (length fs))"

text \<open>
  The receipt time of the most recent record, as the specification words it: the latest
  of the receipt times of the records.
\<close>

definition spec_latest_receipt :: "clock \<Rightarrow> entry list \<Rightarrow> real" where
  "spec_latest_receipt clk data = Max (set (List.map_filter (item_time clk) data))"

subsection \<open>What the code computes, in closed form\<close>

text \<open>
  What a record adds to the sum of frequencies: its current frequency, and 0 when the
  \<open>frequency\<close> key or its \<open>current\<close> key is missing. The mean runs over the records whose
  \<open>cpu\<close> dictionary is not empty.
\<close>

definition counted_frequency :: "entry \<Rightarrow> real" where
  "counted_frequency item =
     (case frequency (cpu item) of
        Val f \<Rightarrow> (case current f of Val x \<Rightarrow> x | _ \<Rightarrow> 0)
      | _ \<Rightarrow> 0)"

definition counted_mean :: "entry list \<Rightarrow> real" where
  "counted_mean data =
     (let items = filter (\<lambda>item. cpu_truthy (cpu item)) data
      in if items = [] then 0 else sum_list (map counted_frequency items) / real (length items))"

text \<open>The two classes of processes, and the staleness alert.\<close>

definition critical :: "proc_row \<Rightarrow> bool" where
  "critical p = (case row_cpu p of Some x \<Rightarrow> 80 < x | None \<Rightarrow> False)"

definition elevated :: "proc_row \<Rightarrow> bool" where
  "elevated p = (case row_cpu p of Some x \<Rightarrow> 50 < x \<and> x \<le> 80 | None \<Rightarrow> False)"

definition is_stale :: "alert \<Rightarrow> bool" where
  "is_stale a = (alert_icon a = AlarmClock)"

subsection \<open>Sample inputs\<close>

text \<open>
  A stored record with 4 cores, Linux, no processes and no users; a clock whose
  \<open>fromisoformat\<close> reads the strings of a table and raises on every other string; and
  such a clock at second 1000 of 2024-01-01 (00:16:40).
\<close>

definition stored ::
  "string field \<Rightarrow> string \<Rightarrow> frequency_dict field \<Rightarrow> string \<Rightarrow> string field \<Rightarrow> entry" where
  "stored aid addr freq ts recv =
     \<lparr>ip = addr, agent_id = aid,
      cpu = \<lparr>count = Val 4, frequency = freq, model = Val ''x86_64''\<rparr>,
      processes = [], users = [], os = \<lparr>os_name = Val ''Linux''\<rparr>,
      timestamp = ts, received_at = recv\<rparr>"

definition table_clock :: "real \<Rightarrow> (string \<times> real) list \<Rightarrow> clock" where
  "table_clock t tbl = \<lparr>now = t, fromisoformat = map_of tbl, isoformat = (\<lambda>x. [])\<rparr>"

definition sample_clock :: clock where
  "sample_clock = table_clock 1000
     [(''2024-01-01T00:16:30'', 990), (''2024-01-01T00:14:41'', 881),
      (''2024-01-01T00:14:39'', 879), (''2024-01-01T00:11:40'', 700)]"

section \<open>Properties of the agent\<close>

subsection \<open>Sorting\<close>

lemma sorted_reverse_sorted:
  assumes "sorted_reverse k xs = Inr ys"
  shows "sorted_wrt (\<lambda>p q. case (k p, k q) of (Some a, Some b) \<Rightarrow> b \<le> a | _ \<Rightarrow> False) ys"
proof (cases "2 \<le> length xs")
  case False
  then have "length ys \<le> 1" using assms by (auto simp: sorted_reverse_def split: if_splits)
  then show ?thesis by (cases ys) (auto simp: Suc_le_eq)
next
  case True
  then have none: "\<forall>x\<in>set xs. k x \<noteq> None" and ys: "ys = sort_key (neg_key k) xs"
    using assms by (auto simp: sorted_reverse_def list_ex_iff split: if_splits)
  have "sorted (map (neg_key k) ys)" unfolding ys by (rule sorted_sort_key)
  then have s: "sorted_wrt (\<lambda>p q. neg_key k p \<le> neg_key k q) ys"
    by (simp add: sorted_map)
  have mem: "\<forall>x\<in>set ys. k x \<noteq> None" using none ys by simp
  show ?thesis
    by (rule sorted_wrt_mono_rel [OF _ s]) (use mem in \<open>auto simp: neg_key_def split: option.splits\<close>)
qed

text \<open>
  C8. Whatever the two passes over the processes see, the \<open>processes\<close> list of the
  snapshot has at most 10 entries and is in non-increasing order of \<open>cpu_percent\<close>.
\<close>

theorem collect_processes_top10:
  "length (collect_processes h) \<le> 10 \<and> sorted_wrt cpu_ge (collect_processes h)"
proof -
  have "sorted_wrt cpu_ge (take 10 s)" if "sorted_reverse cpu_key pl = Inr s" for pl s
    using sorted_reverse_sorted [OF that] unfolding cpu_ge_def [abs_def]
    by (rule sorted_wrt_take)
  then show ?thesis
    by (auto simp: collect_processes_def split: option.splits sum.splits)
qed

subsection \<open>Sending\<close>

lemma send_loop_result:
  "0 \<le> backoff \<Longrightarrow>
   snd (send_loop server retries backoff a n tr) = Inr (\<exists>i<n. server (a + i) = Response 200)"
proof (induction n arbitrary: a tr)
  case 0
  then show ?case by simp
next
  case (Suc n)
  have ex: "(\<exists>i<Suc n. server (a + i) = Response 200) \<longleftrightarrow>
            server a = Response 200 \<or> (\<exists>i<n. server (Suc a + i) = Response 200)"
    by (auto simp: less_Suc_eq_0_disj)
  have nn: "\<not> backoff * 2 ^ a < 0" using Suc.prems by (simp add: not_less)
  show ?case unfolding ex using Suc nn by (simp add: Let_def)
qed

text \<open>
  C4, as the claim states it, fails: a response with status 201 is a 2xx response, and
  \<open>send_to_api\<close> treats it as a failed attempt and returns \<open>False\<close>.
\<close>

theorem send_to_api_rejects_201:
  "is_2xx (always (Response 201) 0) \<and> snd (send_to_api (always (Response 201)) 3 2) = Inr False"
  by (simp add: send_to_api_def always_def is_2xx_def numeral_3_eq_3 Let_def)

text \<open>
  C4, amended. With a non-negative backoff, \<open>send_to_api\<close> returns \<open>True\<close> exactly when
  one of its \<open>retries\<close> attempts receives a response with status code 200; every other
  status code, 2xx or not, and every exception of the transport is a failed attempt.
\<close>

theorem send_to_api_success_iff_200:
  assumes "0 \<le> backoff"
  shows "snd (send_to_api server retries backoff) = Inr (\<exists>i<nat retries. server i = Response 200)"
  using send_loop_result [OF assms, of server retries 0 "nat retries"]
  by (simp add: send_to_api_def)

theorem send_to_api_success_iff_200_witness:
  "(0::int) \<le> 2 \<and> snd (send_to_api (always (Response 200)) 3 2) = Inr True
   \<and> snd (send_to_api (always (Response 204)) 3 2) = Inr False
   \<and> snd (send_to_api (always PostRaises) 3 2) = Inr False"
  using send_to_api_success_iff_200 [of 2 "always (Response 200)" 3]
    send_to_api_success_iff_200 [of 2 "always (Response 204)" 3]
    send_to_api_success_iff_200 [of 2 "always PostRaises" 3]
  by (auto simp: always_def intro: exI [of _ 0])

text \<open>
  C6. With \<open>retries = 3\<close> and \<open>backoff = 2\<close> against a server on which every attempt
  fails, \<open>send_to_api\<close> posts exactly 3 times, sleeps 2 and then 4 seconds (6 in all,
  nothing after the last attempt) and returns \<open>False\<close>.
\<close>

theorem send_to_api_three_failures:
  assumes "\<forall>i<3. server i \<noteq> Response 200"
  shows "send_to_api server 3 2 = (\<lparr>posts = 3, slept = [2, 4]\<rparr>, Inr False)
         \<and> sum_list (slept (fst (send_to_api server 3 2))) \<ge> 6"
proof -
  have "server 0 \<noteq> Response 200" "server (Suc 0) \<noteq> Response 200" "server (Suc (Suc 0)) \<noteq> Response 200"
    using assms by (auto simp: numeral_3_eq_3)
  then have "send_to_api server 3 2 = (\<lparr>posts = 3, slept = [2, 4]\<rparr>, Inr False)"
    by (simp add: send_to_api_def numeral_3_eq_3 Let_def)
  then show ?thesis by simp
qed

theorem send_to_api_three_failures_witness:
  "always (Response 500) 0 \<noteq> Response 200
   \<and> send_to_api (always (Response 500)) 3 2 = (\<lparr>posts = 3, slept = [2, 4]\<rparr>, Inr False)
   \<and> sum_list (slept (fst (send_to_api (always (Response 500)) 3 2))) \<ge> 6"
proof -
  have h: "\<forall>i<3. always (Response 500) i \<noteq> Response 200" by (simp add: always_def)
  have "always (Response 500) 0 \<noteq> Response 200" by (simp add: always_def)
  with send_to_api_three_failures [OF h] show ?thesis by blast
qed

subsection \<open>Resolving the address\<close>

lemma scan_addr_list_not_loopback:
  "scan_addr_list addrs = Some a \<Longrightarrow> \<not> startswith a ''127.''"
  by (induction addrs) (auto simp: startswith_any_def split: if_splits)

lemma scan_interfaces_not_loopback:
  "scan_interfaces ifs = Some a \<Longrightarrow> \<not> startswith a ''127.''"
  by (induction ifs rule: scan_interfaces.induct)
    (auto split: if_splits option.splits dest: scan_addr_list_not_loopback)

text \<open>
  Once the first method has raised, a loopback result is the fallback literal, returned
  after the second and the third method gave nothing: these two make the test.
\<close>

lemma get_real_ip_after_socket_failure:
  assumes "sock_name net = None" and "startswith (get_real_ip net) ''127.''"
  shows "method2 net = None \<and> method3 net = None \<and> get_real_ip net = ''127.0.0.1''"
proof -
  have m2: "method2 net = None"
  proof (cases "method2 net")
    case None
    then show ?thesis .
  next
    case (Some a)
    then have "\<not> startswith a ''127.''"
      by (auto simp: method2_def split: option.splits dest: scan_interfaces_not_loopback)
    with assms Some show ?thesis by (simp add: get_real_ip_def)
  qed
  have m3: "method3 net = None"
  proof (cases "method3 net")
    case None
    then show ?thesis .
  next
    case (Some a)
    then have "\<not> startswith a ''127.''"
      by (auto simp: method3_def split: option.splits if_splits)
    with assms m2 Some show ?thesis by (simp add: get_real_ip_def)
  qed
  from assms(1) m2 m3 show ?thesis by (simp add: get_real_ip_def)
qed

text \<open>
  C7. The first method returns whatever the socket reports, without the loopback test
  that the second and third methods make: when the route to 8.8.8.8 leaves through the
  loopback interface, \<open>get_real_ip\<close> returns 127.0.0.1 although the interface scan would
  have found 192.168.1.5.
\<close>

theorem get_real_ip_loopback_from_socket:
  "get_real_ip \<lparr>sock_name = Some ''127.0.0.1'',
      net_if_addrs = Some [(''eth0'', [\<lparr>addr_family = AF_INET, address = ''192.168.1.5''\<rparr>])],
      host_by_name = Some ''192.168.1.5''\<rparr> = ''127.0.0.1''
   \<and> method2 \<lparr>sock_name = Some ''127.0.0.1'',
      net_if_addrs = Some [(''eth0'', [\<lparr>addr_family = AF_INET, address = ''192.168.1.5''\<rparr>])],
      host_by_name = Some ''192.168.1.5''\<rparr> = Some ''192.168.1.5''"
  by (simp add: get_real_ip_def method2_def startswith_any_def startswith_def)

section \<open>Properties of the collector\<close>

lemma and_then_Inr_iff: "and_then r f = Inr y \<longleftrightarrow> (\<exists>v. r = Inr v \<and> f v = Inr y)"
  by (cases r) (simp_all add: and_then_def)

lemma get_stats_nonempty:
  assumes "get_stats clk data = Inr st" and "data \<noteq> []"
  obtains avg timeline tops high al where
    "avg_cpu data = Inr avg" "cpu_timeline data = Inr timeline"
    "top_processes_list data = Inr tops"
    "high_cpu_processes (all_processes data) = Inr high"
    "alerts clk data = Inr al"
    "st_avg_cpu st = avg / 1000" "st_alerts st = al"
    "st_active_agents st = card (recent_agents clk data)"
    "st_os_distribution st = os_distribution data"
    "st_ip_activity st = ip_activity data"
    "st_total_records st = length data"
proof -
  from assms obtain avg timeline tops high al where
    "avg_cpu data = Inr avg" "cpu_timeline data = Inr timeline"
    "top_processes_list data = Inr tops"
    "high_cpu_processes (all_processes data) = Inr high"
    "alerts clk data = Inr al"
    and st: "st = \<lparr>st_total_records = length data,
               st_active_agents = card (recent_agents clk data),
               st_avg_cpu = avg / 1000,
               st_total_processes = total_processes (all_processes data),
               st_active_users = length (unique_users data),
               st_last_update = (case received_at (last data) of Val s \<Rightarrow> s | _ \<Rightarrow> []),
               st_cpu_timeline = timeline,
               st_os_distribution = os_distribution data,
               st_ip_activity = ip_activity data,
               st_top_processes = top_processes tops,
               st_processes = tops,
               st_users = unique_users data,
               st_high_cpu_processes = high,
               st_alerts = al\<rparr>"
    by (simp add: get_stats_def and_then_Inr_iff) blast
  then show thesis by (intro that) simp_all
qed

subsection \<open>No records\<close>

text \<open>
  C9. On an empty record set \<open>get_stats\<close> returns a response, not an error: every count
  and the average are 0, every sequence is empty, and \<open>last_update\<close> is the current time.
\<close>

theorem get_stats_empty:
  "get_stats clk [] =
     Inr \<lparr>st_total_records = 0, st_active_agents = 0, st_avg_cpu = 0,
          st_total_processes = 0, st_active_users = 0,
          st_last_update = isoformat clk (now clk),
          st_cpu_timeline = ([], []), st_os_distribution = ([], []),
          st_ip_activity = ([], []), st_top_processes = ([], []),
          st_processes = [], st_users = [], st_high_cpu_processes = [], st_alerts = []\<rparr>"
  by (simp add: get_stats_def)

text \<open>The definitions that evaluate \<open>get_stats\<close> on a concrete input.\<close>

lemmas eval_defs = get_stats_def and_then_def avg_cpu_def cpu_freqs_def cpu_truthy_def
  frequency_current_def cpu_timeline_def recent_data_def last_n_def split_T_1_def
  top_processes_list_def all_processes_def latest_data_def sorted_reverse_def
  high_cpu_processes_def alerts_def critical_processes_def warning_processes_def
  stale_alert_def last_timestamp_def critical_alert_def warning_alert_def recent_agents_def
  recent_step_def item_time_def truthy_agent_id_def total_processes_def unique_users_def
  all_users_def os_distribution_def ip_activity_def os_counts_def ip_counts_def
  count_values_def count_step_def os_by_agent_def ip_by_agent_def by_agent_def agent_step_def
  dedup_key_def os_name_of_def dict_get_def top_processes_def process_row_def cpu_above_def
  cpu_between_def py_int_def neg_key_def stored_def table_clock_def sample_clock_def Let_def

subsection \<open>Active agents\<close>

lemma recent_fold_keeps: "a \<in> agents \<Longrightarrow> a \<in> fold (recent_step clk) data agents"
  by (induction data arbitrary: agents) (auto simp: recent_step_def split: option.splits)

lemma recent_fold_finite: "finite agents \<Longrightarrow> finite (fold (recent_step clk) data agents)"
  by (induction data arbitrary: agents) (auto simp: recent_step_def split: option.splits)

lemma recent_fold_unparsed:
  "item \<in> set data \<Longrightarrow> truthy_agent_id item = Some a \<Longrightarrow> item_time clk item = None \<Longrightarrow>
   a \<in> fold (recent_step clk) data agents"
proof (induction data arbitrary: agents)
  case Nil
  then show ?case by simp
next
  case (Cons x xs)
  show ?case
  proof (cases "item = x")
    case True
    then have "a \<in> recent_step clk x agents" using Cons.prems by (simp add: recent_step_def)
    then show ?thesis by (simp add: recent_fold_keeps)
  next
    case False
    then show ?thesis using Cons by simp
  qed
qed

text \<open>
  C10. A record with a non-empty \<open>agent_id\<close> whose receipt time cannot be read
  (\<open>received_at\<close>, or \<open>timestamp\<close> when \<open>received_at\<close> is absent, makes \<open>fromisoformat\<close>
  raise) puts its agent among the active ones whatever the current time is: the
  5-minute window is not applied to it, and the response counts it.
\<close>

theorem unparsed_time_counts_as_active:
  assumes "item \<in> set data" and "agent_id item = Val a" and "a \<noteq> []"
    and "item_time clk item = None"
  shows "a \<in> recent_agents clk data
       \<and> (\<forall>st. get_stats clk data = Inr st \<longrightarrow>
             st_active_agents st = card (recent_agents clk data) \<and> 1 \<le> st_active_agents st)"
proof -
  have t: "truthy_agent_id item = Some a" using assms by (simp add: truthy_agent_id_def)
  have mem: "a \<in> recent_agents clk data"
    unfolding recent_agents_def by (rule recent_fold_unparsed [OF assms(1) t assms(4)])
  have fin: "finite (recent_agents clk data)"
    unfolding recent_agents_def by (rule recent_fold_finite) simp
  have pos: "1 \<le> card (recent_agents clk data)"
    using mem fin by (metis One_nat_def Suc_leI card_gt_0_iff empty_iff)
  have ne: "data \<noteq> []" using assms(1) by auto
  have "st_active_agents st = card (recent_agents clk data)" if "get_stats clk data = Inr st" for st
    using that ne by (rule get_stats_nonempty)
  with mem pos show ?thesis by simp
qed

theorem unparsed_time_counts_as_active_witness:
  "''a0'' \<in> recent_agents sample_clock
      [stored (Val ''a0'') ''10.0.0.7'' Absent ''2024-01-01T00:16:29'' (Val ''yesterday''),
       stored (Val ''a1'') ''10.0.0.1'' Absent ''2024-01-01T00:16:29'' (Val ''2024-01-01T00:16:30'')]
   \<and> (\<exists>st. get_stats sample_clock
      [stored (Val ''a0'') ''10.0.0.7'' Absent ''2024-01-01T00:16:29'' (Val ''yesterday''),
       stored (Val ''a1'') ''10.0.0.1'' Absent ''2024-01-01T00:16:29'' (Val ''2024-01-01T00:16:30'')] = Inr st
      \<and> 1 \<le> st_active_agents st)"
proof -
  obtain st where g: "get_stats sample_clock
      [stored (Val ''a0'') ''10.0.0.7'' Absent ''2024-01-01T00:16:29'' (Val ''yesterday''),
       stored (Val ''a1'') ''10.0.0.1'' Absent ''2024-01-01T00:16:29'' (Val ''2024-01-01T00:16:30'')] = Inr st"
    by (simp add: eval_defs)
  have "item_time sample_clock
      (stored (Val ''a0'') ''10.0.0.7'' Absent ''2024-01-01T00:16:29'' (Val ''yesterday'')) = None"
    by (simp add: item_time_def stored_def sample_clock_def table_clock_def)
  then show ?thesis
    using g unparsed_time_counts_as_active [of
      "stored (Val ''a0'') ''10.0.0.7'' Absent ''2024-01-01T00:16:29'' (Val ''yesterday'')"
      "[stored (Val ''a0'') ''10.0.0.7'' Absent ''2024-01-01T00:16:29'' (Val ''yesterday''),
        stored (Val ''a1'') ''10.0.0.1'' Absent ''2024-01-01T00:16:29'' (Val ''2024-01-01T00:16:30'')]"
      "''a0''" sample_clock]
    by (simp add: stored_def)
qed

subsection \<open>Average CPU frequency\<close>

lemma comprehension_frequency_sum:
  "comprehension frequency_current xs = Inr fs \<Longrightarrow> py_sum fs = Inr s \<Longrightarrow>
   s = sum_list (map counted_frequency xs) \<and> length fs = length xs"
proof (induction xs arbitrary: fs s)
  case Nil
  then show ?case by simp
next
  case (Cons x xs)
  from Cons.prems(1) obtain v vs where v: "frequency_current x = Inr v"
    and vs: "comprehension frequency_current xs = Inr vs" and fs: "fs = v # vs"
    by (auto split: sum.splits)
  from Cons.prems(2) fs obtain c s' where c: "v = Some c" and s': "py_sum vs = Inr s'" and s: "s = c + s'"
    by (cases v) (auto split: sum.splits)
  have "c = counted_frequency x"
    using v c by (auto simp: frequency_current_def counted_frequency_def split: field.splits)
  with Cons.IH [OF vs s'] s fs show ?case by simp
qed

lemma avg_cpu_counted: "avg_cpu data = Inr avg \<Longrightarrow> avg = counted_mean data"
  unfolding avg_cpu_def and_then_def cpu_freqs_def counted_mean_def Let_def
  by (auto split: sum.splits if_splits dest: comprehension_frequency_sum)

text \<open>
  C2, as the claim states it, fails: of two records, one reporting 2000 MHz and one
  without a \<open>frequency\<close> key, the mean over the reporting records is 2000, and \<open>avg_cpu\<close>
  is 1000 (the response gives 1, in GHz): the record without a frequency counted as 0.
\<close>

theorem avg_cpu_not_mean_of_reported:
  "avg_cpu
     [stored (Val ''a1'') ''10.0.0.1'' (Val \<lparr>current = Val 2000\<rparr>) ''2024-01-01T00:16:29'' (Val ''2024-01-01T00:16:30''),
      stored (Val ''a2'') ''10.0.0.2'' Absent ''2024-01-01T00:16:29'' (Val ''2024-01-01T00:16:30'')] = Inr 1000
   \<and> map_sum id st_avg_cpu (get_stats sample_clock
     [stored (Val ''a1'') ''10.0.0.1'' (Val \<lparr>current = Val 2000\<rparr>) ''2024-01-01T00:16:29'' (Val ''2024-01-01T00:16:30''),
      stored (Val ''a2'') ''10.0.0.2'' Absent ''2024-01-01T00:16:29'' (Val ''2024-01-01T00:16:30'')]) = Inr 1
   \<and> spec_mean_frequency
     [stored (Val ''a1'') ''10.0.0.1'' (Val \<lparr>current = Val 2000\<rparr>) ''2024-01-01T00:16:29'' (Val ''2024-01-01T00:16:30''),
      stored (Val ''a2'') ''10.0.0.2'' Absent ''2024-01-01T00:16:29'' (Val ''2024-01-01T00:16:30'')] = 2000"
  by (simp add: eval_defs spec_mean_frequency_def reported_frequency_def List.map_filter_simps)

text \<open>
  C2, amended. When \<open>get_stats\<close> answers on a non-empty record set, its \<open>avg_cpu\<close> is, in
  GHz (the mean in MHz divided by 1000), the arithmetic mean over all records with a
  non-empty \<open>cpu\<close> dictionary, where a record whose \<open>frequency\<close> key or whose \<open>current\<close>
  key is missing adds 0 to the sum and 1 to the number of records; it is 0 when no record
  has a non-empty \<open>cpu\<close> dictionary.
\<close>

theorem avg_cpu_counts_missing_as_zero:
  assumes "get_stats clk data = Inr st" and "data \<noteq> []"
  shows "st_avg_cpu st = counted_mean data / 1000"
proof -
  from assms obtain avg where "avg_cpu data = Inr avg" and "st_avg_cpu st = avg / 1000"
    by (rule get_stats_nonempty)
  then show ?thesis by (simp add: avg_cpu_counted)
qed

theorem avg_cpu_counts_missing_as_zero_witness:
  "\<exists>st. get_stats sample_clock
     [stored (Val ''a1'') ''10.0.0.1'' (Val \<lparr>current = Val 2000\<rparr>) ''2024-01-01T00:16:29'' (Val ''2024-01-01T00:16:30''),
      stored (Val ''a2'') ''10.0.0.2'' Absent ''2024-01-01T00:16:29'' (Val ''2024-01-01T00:16:30'')] = Inr st
   \<and> st_avg_cpu st = 1"
proof -
  obtain st where g: "get_stats sample_clock
     [stored (Val ''a1'') ''10.0.0.1'' (Val \<lparr>current = Val 2000\<rparr>) ''2024-01-01T00:16:29'' (Val ''2024-01-01T00:16:30''),
      stored (Val ''a2'') ''10.0.0.2'' Absent ''2024-01-01T00:16:29'' (Val ''2024-01-01T00:16:30'')] = Inr st"
    by (simp add: eval_defs)
  have "st_avg_cpu st = 1"
    using avg_cpu_counts_missing_as_zero [OF g]
    by (simp add: counted_mean_def counted_frequency_def cpu_truthy_def stored_def)
  with g show ?thesis by blast
qed

subsection \<open>Alerts\<close>

lemma comprehension_if_above:
  "comprehension_if (cpu_above c) rows = Inr xs \<Longrightarrow>
   xs = filter (\<lambda>p. case row_cpu p of Some x \<Rightarrow> c < x | None \<Rightarrow> False) rows"
  by (induction rows arbitrary: xs) (auto simp: cpu_above_def split: sum.splits option.splits)

lemma comprehension_if_between:
  "comprehension_if (cpu_between lo hi) rows = Inr xs \<Longrightarrow>
   xs = filter (\<lambda>p. case row_cpu p of Some x \<Rightarrow> lo < x \<and> x \<le> hi | None \<Rightarrow> False) rows"
  by (induction rows arbitrary: xs) (auto simp: cpu_between_def split: sum.splits option.splits)

lemma alerts_shape:
  assumes "alerts clk data = Inr al"
  obtains s t where "received_at (last data) = Val s" "fromisoformat clk s = Some t"
    "al = critical_alert (filter critical (all_processes data))
          @ warning_alert (filter elevated (all_processes data))
          @ (if now clk - t > 120
             then [\<lparr>alert_type = ''warning'', alert_icon = AlarmClock,
                    alert_message = NoData (py_int ((now clk - t) / 60))\<rparr>]
             else [])"
proof -
  from assms obtain crit warn stale where
    c: "critical_processes (all_processes data) = Inr crit" and
    w: "warning_processes (all_processes data) = Inr warn" and
    s: "stale_alert clk data = Inr stale" and
    al: "al = critical_alert crit @ warning_alert warn @ stale"
    by (auto simp: alerts_def and_then_Inr_iff)
  have c': "crit = filter critical (all_processes data)"
    using comprehension_if_above [OF c [unfolded critical_processes_def]]
    by (simp add: critical_def [abs_def])
  have w': "warn = filter elevated (all_processes data)"
    using comprehension_if_between [OF w [unfolded warning_processes_def]]
    by (simp add: elevated_def [abs_def])
  from s obtain t where lt: "last_timestamp clk data = Inr t" and
    st: "stale = (if now clk - t > 120
             then [\<lparr>alert_type = ''warning'', alert_icon = AlarmClock,
                    alert_message = NoData (py_int ((now clk - t) / 60))\<rparr>]
             else [])"
    by (auto simp: stale_alert_def and_then_Inr_iff Let_def split: if_splits)
  from lt obtain s' where "received_at (last data) = Val s'" "fromisoformat clk s' = Some t"
    by (auto simp: last_timestamp_def split: field.splits option.splits)
  then show thesis using al c' w' st by (intro that) simp_all
qed

lemma py_int_floor: "0 \<le> x \<Longrightarrow> py_int x = \<lfloor>x\<rfloor>"
  by (simp add: py_int_def)

text \<open>
  What the staleness block does. When \<open>get_stats\<close> answers on a non-empty record
  sequence, it has read the receipt time of \<open>data[-1]\<close>, the last record of the sequence
  in the order in which the files were listed, and the alert is there exactly when that
  time is more than 120 seconds before now, with the integer floor of the elapsed seconds
  divided by 60 in its message: 119 seconds give no alert, 121 seconds give 2 minutes.
  The threshold and the minutes are right; which record is read is not, as shown below.
\<close>

lemma staleness_of_last_record:
  assumes "get_stats clk data = Inr st" and "data \<noteq> []"
  shows "\<exists>s t. received_at (last data) = Val s \<and> fromisoformat clk s = Some t \<and>
           filter is_stale (st_alerts st) =
             (if now clk - t > 120
              then [\<lparr>alert_type = ''warning'', alert_icon = AlarmClock,
                     alert_message = NoData \<lfloor>(now clk - t) / 60\<rfloor>\<rparr>]
              else [])"
proof -
  from assms obtain al where "alerts clk data = Inr al" and "st_alerts st = al"
    by (rule get_stats_nonempty)
  then have "alerts clk data = Inr (st_alerts st)" by simp
  then obtain s t where s: "received_at (last data) = Val s" and t: "fromisoformat clk s = Some t"
    and al: "st_alerts st = critical_alert (filter critical (all_processes data))
          @ warning_alert (filter elevated (all_processes data))
          @ (if now clk - t > 120
             then [\<lparr>alert_type = ''warning'', alert_icon = AlarmClock,
                    alert_message = NoData (py_int ((now clk - t) / 60))\<rparr>]
             else [])"
    by (rule alerts_shape)
  have "filter is_stale (st_alerts st) =
             (if now clk - t > 120
              then [\<lparr>alert_type = ''warning'', alert_icon = AlarmClock,
                     alert_message = NoData \<lfloor>(now clk - t) / 60\<rfloor>\<rparr>]
              else [])"
    unfolding al by (simp add: is_stale_def critical_alert_def warning_alert_def py_int_floor)
  with s t show ?thesis by blast
qed

lemma staleness_of_last_record_119_121:
  "(\<exists>st. get_stats sample_clock
       [stored (Val ''a1'') ''10.0.0.1'' (Val \<lparr>current = Val 2000\<rparr>) ''2024-01-01T00:14:38'' (Val ''2024-01-01T00:14:39'')] = Inr st
     \<and> filter is_stale (st_alerts st) =
         [\<lparr>alert_type = ''warning'', alert_icon = AlarmClock, alert_message = NoData 2\<rparr>])
   \<and> (\<exists>st. get_stats sample_clock
       [stored (Val ''a1'') ''10.0.0.1'' (Val \<lparr>current = Val 2000\<rparr>) ''2024-01-01T00:14:40'' (Val ''2024-01-01T00:14:41'')] = Inr st
     \<and> filter is_stale (st_alerts st) = [])"
proof -
  obtain st1 where g1: "get_stats sample_clock
       [stored (Val ''a1'') ''10.0.0.1'' (Val \<lparr>current = Val 2000\<rparr>) ''2024-01-01T00:14:38'' (Val ''2024-01-01T00:14:39'')] = Inr st1"
    by (simp add: eval_defs)
  obtain st2 where g2: "get_stats sample_clock
       [stored (Val ''a1'') ''10.0.0.1'' (Val \<lparr>current = Val 2000\<rparr>) ''2024-01-01T00:14:40'' (Val ''2024-01-01T00:14:41'')] = Inr st2"
    by (simp add: eval_defs)
  have "filter is_stale (st_alerts st1) =
      [\<lparr>alert_type = ''warning'', alert_icon = AlarmClock, alert_message = NoData 2\<rparr>]"
    using staleness_of_last_record [OF g1] by (auto simp: stored_def sample_clock_def table_clock_def)
  moreover have "filter is_stale (st_alerts st2) = []"
    using staleness_of_last_record [OF g2] by (auto simp: stored_def sample_clock_def table_clock_def)
  ultimately show ?thesis using g1 g2 by blast
qed

text \<open>
  C3. The staleness alert is about the most recent record, and \<open>get_stats\<close> reads the
  last record of the sequence instead, which the file listing may put anywhere. Of two
  records, the first received 10 seconds ago and the second 300 seconds ago, the most
  recent receipt is 10 seconds old, and \<open>get_stats\<close> emits the staleness alert, with
  5 minutes; on the same two records in the other order it emits no alert.
\<close>

theorem staleness_not_of_latest_receipt:
  "now sample_clock -
     spec_latest_receipt sample_clock
       [stored (Val ''a1'') ''10.0.0.1'' (Val \<lparr>current = Val 2000\<rparr>) ''2024-01-01T00:16:29'' (Val ''2024-01-01T00:16:30''),
        stored (Val ''a2'') ''10.0.0.2'' (Val \<lparr>current = Val 2000\<rparr>) ''2024-01-01T00:11:39'' (Val ''2024-01-01T00:11:40'')] = 10
   \<and> map_sum id st_alerts (get_stats sample_clock
       [stored (Val ''a1'') ''10.0.0.1'' (Val \<lparr>current = Val 2000\<rparr>) ''2024-01-01T00:16:29'' (Val ''2024-01-01T00:16:30''),
        stored (Val ''a2'') ''10.0.0.2'' (Val \<lparr>current = Val 2000\<rparr>) ''2024-01-01T00:11:39'' (Val ''2024-01-01T00:11:40'')])
     = Inr [\<lparr>alert_type = ''warning'', alert_icon = AlarmClock, alert_message = NoData 5\<rparr>]
   \<and> map_sum id st_alerts (get_stats sample_clock
       [stored (Val ''a2'') ''10.0.0.2'' (Val \<lparr>current = Val 2000\<rparr>) ''2024-01-01T00:11:39'' (Val ''2024-01-01T00:11:40''),
        stored (Val ''a1'') ''10.0.0.1'' (Val \<lparr>current = Val 2000\<rparr>) ''2024-01-01T00:16:29'' (Val ''2024-01-01T00:16:30'')])
     = Inr []"
  by (simp add: eval_defs spec_latest_receipt_def List.map_filter_simps)

text \<open>
  C5. When \<open>get_stats\<close> answers, there is one critical alert exactly when some process of
  the flattened recent processes has \<open>cpu_percent > 80\<close>, and it gives the number of those
  processes; there is one elevated (warning) alert exactly when some process has
  \<open>50 < cpu_percent \<le> 80\<close>, and it gives the number of those. A process at exactly 50 is
  in neither class, a process at exactly 80 is elevated and not critical.
\<close>

theorem cpu_alert_thresholds:
  assumes "get_stats clk data = Inr st" and "data \<noteq> []"
  shows "filter (\<lambda>a. alert_icon a = RedCircle) (st_alerts st) =
           (if filter critical (all_processes data) = [] then []
            else [\<lparr>alert_type = ''danger'', alert_icon = RedCircle,
                   alert_message = CriticalCpu (length (filter critical (all_processes data)))\<rparr>])
       \<and> filter (\<lambda>a. alert_icon a = YellowCircle) (st_alerts st) =
           (if filter elevated (all_processes data) = [] then []
            else [\<lparr>alert_type = ''warning'', alert_icon = YellowCircle,
                   alert_message = ElevatedCpu (length (filter elevated (all_processes data)))\<rparr>])"
proof -
  from assms obtain al where "alerts clk data = Inr al" and "st_alerts st = al"
    by (rule get_stats_nonempty)
  then have "alerts clk data = Inr (st_alerts st)" by simp
  then obtain s t where
    al: "st_alerts st = critical_alert (filter critical (all_processes data))
          @ warning_alert (filter elevated (all_processes data))
          @ (if now clk - t > 120
             then [\<lparr>alert_type = ''warning'', alert_icon = AlarmClock,
                    alert_message = NoData (py_int ((now clk - t) / 60))\<rparr>]
             else [])"
    by (rule alerts_shape)
  show ?thesis unfolding al by (simp add: critical_alert_def warning_alert_def)
qed

theorem cpu_alert_thresholds_witness:
  "(\<exists>st. get_stats sample_clock
       [(stored (Val ''a1'') ''10.0.0.1'' (Val \<lparr>current = Val 2000\<rparr>) ''2024-01-01T00:16:29'' (Val ''2024-01-01T00:16:30''))
          \<lparr>processes := [\<lparr>pid = Val 1, name = Val ''p1'', cpu_percent = Val 50\<rparr>,
                          \<lparr>pid = Val 2, name = Val ''p2'', cpu_percent = Val 50.01\<rparr>,
                          \<lparr>pid = Val 3, name = Val ''p3'', cpu_percent = Val 80\<rparr>,
                          \<lparr>pid = Val 4, name = Val ''p4'', cpu_percent = Val 80.01\<rparr>]\<rparr>] = Inr st
     \<and> filter (\<lambda>a. alert_icon a = RedCircle) (st_alerts st) =
         [\<lparr>alert_type = ''danger'', alert_icon = RedCircle, alert_message = CriticalCpu 1\<rparr>]
     \<and> filter (\<lambda>a. alert_icon a = YellowCircle) (st_alerts st) =
         [\<lparr>alert_type = ''warning'', alert_icon = YellowCircle, alert_message = ElevatedCpu 2\<rparr>])
   \<and> (\<exists>st. get_stats sample_clock
       [(stored (Val ''a1'') ''10.0.0.1'' (Val \<lparr>current = Val 2000\<rparr>) ''2024-01-01T00:16:29'' (Val ''2024-01-01T00:16:30''))
          \<lparr>processes := [\<lparr>pid = Val 1, name = Val ''p1'', cpu_percent = Val 50\<rparr>]\<rparr>] = Inr st
     \<and> filter (\<lambda>a. alert_icon a = RedCircle) (st_alerts st) = []
     \<and> filter (\<lambda>a. alert_icon a = YellowCircle) (st_alerts st) = [])"
proof -
  obtain st1 where g1: "get_stats sample_clock
       [(stored (Val ''a1'') ''10.0.0.1'' (Val \<lparr>current = Val 2000\<rparr>) ''2024-01-01T00:16:29'' (Val ''2024-01-01T00:16:30''))
          \<lparr>processes := [\<lparr>pid = Val 1, name = Val ''p1'', cpu_percent = Val 50\<rparr>,
                          \<lparr>pid = Val 2, name = Val ''p2'', cpu_percent = Val 50.01\<rparr>,
                          \<lparr>pid = Val 3, name = Val ''p3'', cpu_percent = Val 80\<rparr>,
                          \<lparr>pid = Val 4, name = Val ''p4'', cpu_percent = Val 80.01\<rparr>]\<rparr>] = Inr st1"
    by (simp add: eval_defs)
  obtain st2 where g2: "get_stats sample_clock
       [(stored (Val ''a1'') ''10.0.0.1'' (Val \<lparr>current = Val 2000\<rparr>) ''2024-01-01T00:16:29'' (Val ''2024-01-01T00:16:30''))
          \<lparr>processes := [\<lparr>pid = Val 1, name = Val ''p1'', cpu_percent = Val 50\<rparr>]\<rparr>] = Inr st2"
    by (simp add: eval_defs)
  have "filter (\<lambda>a. alert_icon a = RedCircle) (st_alerts st1) =
         [\<lparr>alert_type = ''danger'', alert_icon = RedCircle, alert_message = CriticalCpu 1\<rparr>]
     \<and> filter (\<lambda>a. alert_icon a = YellowCircle) (st_alerts st1) =
         [\<lparr>alert_type = ''warning'', alert_icon = YellowCircle, alert_message = ElevatedCpu 2\<rparr>]"
    using cpu_alert_thresholds [OF g1]
    by (simp add: critical_def elevated_def all_processes_def latest_data_def last_n_def
        process_row_def stored_def)
  moreover have "filter (\<lambda>a. alert_icon a = RedCircle) (st_alerts st2) = []
     \<and> filter (\<lambda>a. alert_icon a = YellowCircle) (st_alerts st2) = []"
    using cpu_alert_thresholds [OF g2]
    by (simp add: critical_def elevated_def all_processes_def latest_data_def last_n_def
        process_row_def stored_def)
  ultimately show ?thesis using g1 g2 by blast
qed

subsection \<open>OS and IP distribution\<close>

lemma map_of_dict_set: "map_of (dict_set k v d) = (map_of d)(k \<mapsto> v)"
  by (induction d) (auto simp: fun_eq_iff)

lemma map_fst_dict_set:
  "map fst (dict_set k v d) = (if k \<in> set (map fst d) then map fst d else map fst d @ [k])"
  by (induction d) force+

lemma distinct_dict_set: "distinct (map fst d) \<Longrightarrow> distinct (map fst (dict_set k v d))"
  by (simp add: map_fst_dict_set)

lemma agent_step_map_of:
  "map_of (agent_step f x d) a = (if dedup_key x = Some a then Some (f x) else map_of d a)"
  by (auto simp: agent_step_def map_of_dict_set split: option.splits)

lemma fold_agent_step_map_of:
  "map_of (fold (agent_step f) data d) a =
     (case filter (\<lambda>i. dedup_key i = Some a) data of
        [] \<Rightarrow> map_of d a
      | x # xs \<Rightarrow> Some (f (last (x # xs))))"
proof (induction data arbitrary: d)
  case Nil
  then show ?case by simp
next
  case (Cons x xs)
  show ?case
    by (cases "dedup_key x = Some a") (simp_all add: Cons.IH agent_step_map_of split: list.splits)
qed

lemma fold_agent_step_distinct:
  "distinct (map fst d) \<Longrightarrow> distinct (map fst (fold (agent_step f) data d))"
proof (induction data arbitrary: d)
  case Nil
  then show ?case by simp
next
  case (Cons x xs)
  have "distinct (map fst (agent_step f x d))"
    using Cons.prems by (simp add: agent_step_def distinct_dict_set split: option.splits)
  then show ?case by (simp add: Cons.IH)
qed

lemma by_agent_distinct: "distinct (map fst (by_agent f data))"
  by (simp add: by_agent_def fold_agent_step_distinct)

lemma by_agent_last:
  assumes "item \<in> set data" and "dedup_key item = Some a"
  shows "map_of (by_agent f data) a = Some (f (last (filter (\<lambda>i. dedup_key i = Some a) data)))"
proof -
  have "filter (\<lambda>i. dedup_key i = Some a) data \<noteq> []"
    using assms by (auto simp: filter_empty_conv)
  then show ?thesis
    by (simp add: by_agent_def fold_agent_step_map_of split: list.splits)
qed

lemma distinct_count_once: "distinct xs \<Longrightarrow> x \<in> set xs \<Longrightarrow> count_list xs x = 1"
  by (induction xs) (auto simp: count_list_0_iff)

lemma fold_count_step_get:
  "dict_get (fold count_step vs c) v 0 = dict_get c v 0 + count_list vs v"
  by (induction vs arbitrary: c) (auto simp: count_step_def dict_get_def map_of_dict_set)

lemma count_values_get: "dict_get (count_values vs) v 0 = count_list vs v"
  using fold_count_step_get [of vs "[]" v] by (simp add: count_values_def dict_get_def)

lemma fold_count_step_distinct:
  "distinct (map fst c) \<Longrightarrow> distinct (map fst (fold count_step vs c))"
  by (induction vs arbitrary: c) (auto simp: count_step_def distinct_dict_set)

lemma count_values_distinct: "distinct (map fst (count_values vs))"
  using fold_count_step_distinct [of "[]" vs] by (simp add: count_values_def)

lemma count_values_by_key:
  assumes "distinct (map fst d)"
  shows "count_list (map snd d) v = card {k. map_of d k = Some v}"
  using assms
proof (induction d)
  case Nil
  then show ?case by simp
next
  case (Cons p d)
  obtain k0 v0 where p: "p = (k0, v0)" by (cases p)
  have k0: "map_of d k0 = None" using Cons.prems p by (simp add: map_of_eq_None_iff)
  have fin: "finite {k. map_of d k = Some v}"
    by (rule finite_subset [of _ "dom (map_of d)"]) (auto simp: finite_dom_map_of)
  have notin: "k0 \<notin> {k. map_of d k = Some v}" using k0 by simp
  have eq: "{k. map_of (p # d) k = Some v} =
        (if v0 = v then insert k0 {k. map_of d k = Some v} else {k. map_of d k = Some v})"
    using k0 p by auto
  show ?case using Cons fin notin p unfolding eq by simp
qed

lemma last_filter_sorted:
  assumes "sorted (map timestamp data)" and "j \<in> set data" and "P j"
  shows "timestamp j \<le> timestamp (last (filter P data))"
  using assms
proof (induction data rule: rev_induct)
  case Nil
  then show ?case by simp
next
  case (snoc x xs)
  show ?case
  proof (cases "P x")
    case True
    then show ?thesis using snoc.prems by (auto simp: sorted_append)
  next
    case False
    then show ?thesis using snoc by (auto simp: sorted_append)
  qed
qed

text \<open>
  C1, as the claim states it, fails: of two records of the agent \<open>a1\<close>, the one with the
  later timestamp (IP 10.0.0.2) read first and the one with the earlier timestamp
  (IP 10.0.0.1) read second, the IP distribution counts the agent under 10.0.0.1:
  the loops run over the records as they were read, not in timestamp order.
\<close>

theorem distribution_ignores_timestamps:
  "timestamp (stored (Val ''a1'') ''10.0.0.1'' (Val \<lparr>current = Val 2000\<rparr>) ''2024-01-01T00:16:28'' (Val ''2024-01-01T00:16:30''))
     < timestamp (stored (Val ''a1'') ''10.0.0.2'' (Val \<lparr>current = Val 2000\<rparr>) ''2024-01-01T00:16:29'' (Val ''2024-01-01T00:16:30''))
   \<and> map_sum id st_ip_activity (get_stats sample_clock
        [stored (Val ''a1'') ''10.0.0.2'' (Val \<lparr>current = Val 2000\<rparr>) ''2024-01-01T00:16:29'' (Val ''2024-01-01T00:16:30''),
         stored (Val ''a1'') ''10.0.0.1'' (Val \<lparr>current = Val 2000\<rparr>) ''2024-01-01T00:16:28'' (Val ''2024-01-01T00:16:30'')])
      = Inr ([''10.0.0.1''], [1])"
  by (simp add: eval_defs)

text \<open>
  C1, amended. For every record sequence and every dedup key \<open>a\<close> that a record of it has
  (its non-empty \<open>agent_id\<close>, or its IP when it has no \<open>agent_id\<close> key), the per-agent
  dictionaries of the OS and of the IP distribution hold \<open>a\<close> exactly once, with the OS
  name and the IP of the last record of the sequence that has this key (later records
  overwrite earlier ones in the order of the sequence); when the sequence is in
  ascending timestamp order, that record has the latest timestamp among the records of
  the key. The distributions report, for each value, the number of keys that hold it,
  each label once.
\<close>

theorem distribution_counts_agent_once:
  assumes "item \<in> set data" and "dedup_key item = Some a"
  shows "count_list (map fst (ip_by_agent data)) a = 1
       \<and> count_list (map fst (os_by_agent data)) a = 1
       \<and> map_of (ip_by_agent data) a = Some (ip (last (filter (\<lambda>i. dedup_key i = Some a) data)))
       \<and> map_of (os_by_agent data) a = Some (os_name_of (last (filter (\<lambda>i. dedup_key i = Some a) data)))
       \<and> dict_get (ip_counts data) v 0 = card {k. map_of (ip_by_agent data) k = Some v}
       \<and> dict_get (os_counts data) w 0 = card {k. map_of (os_by_agent data) k = Some w}
       \<and> ip_activity data = (map fst (ip_counts data), map snd (ip_counts data))
       \<and> os_distribution data = (map fst (os_counts data), map snd (os_counts data))
       \<and> distinct (map fst (ip_counts data)) \<and> distinct (map fst (os_counts data))
       \<and> (sorted (map timestamp data) \<longrightarrow>
            (\<forall>j\<in>set data. dedup_key j = Some a \<longrightarrow>
               timestamp j \<le> timestamp (last (filter (\<lambda>i. dedup_key i = Some a) data))))
       \<and> (agent_id item = Absent \<longrightarrow> a = ip item)"
proof -
  have ipl: "map_of (ip_by_agent data) a = Some (ip (last (filter (\<lambda>i. dedup_key i = Some a) data)))"
    unfolding ip_by_agent_def by (rule by_agent_last [OF assms])
  have osl: "map_of (os_by_agent data) a = Some (os_name_of (last (filter (\<lambda>i. dedup_key i = Some a) data)))"
    unfolding os_by_agent_def by (rule by_agent_last [OF assms])
  have "a \<in> set (map fst (ip_by_agent data))"
    using ipl by (metis map_of_eq_None_iff option.distinct(1) set_map)
  then have c1: "count_list (map fst (ip_by_agent data)) a = 1"
    by (simp add: distinct_count_once by_agent_distinct ip_by_agent_def)
  have "a \<in> set (map fst (os_by_agent data))"
    using osl by (metis map_of_eq_None_iff option.distinct(1) set_map)
  then have c2: "count_list (map fst (os_by_agent data)) a = 1"
    by (simp add: distinct_count_once by_agent_distinct os_by_agent_def)
  have n1: "dict_get (ip_counts data) v 0 = card {k. map_of (ip_by_agent data) k = Some v}"
    by (simp add: ip_counts_def count_values_get count_values_by_key by_agent_distinct ip_by_agent_def)
  have n2: "dict_get (os_counts data) w 0 = card {k. map_of (os_by_agent data) k = Some w}"
    by (simp add: os_counts_def count_values_get count_values_by_key by_agent_distinct os_by_agent_def)
  have srt: "sorted (map timestamp data) \<longrightarrow>
            (\<forall>j\<in>set data. dedup_key j = Some a \<longrightarrow>
               timestamp j \<le> timestamp (last (filter (\<lambda>i. dedup_key i = Some a) data)))"
    by (auto intro: last_filter_sorted)
  have fb: "agent_id item = Absent \<longrightarrow> a = ip item"
    using assms(2) by (auto simp: dedup_key_def split: if_splits)
  show ?thesis
    using c1 c2 ipl osl n1 n2 srt fb
    by (simp add: ip_activity_def os_distribution_def ip_counts_def os_counts_def count_values_distinct)
qed

theorem distribution_counts_agent_once_witness:
  "map_of (ip_by_agent
      [stored (Val ''a1'') ''10.0.0.1'' (Val \<lparr>current = Val 2000\<rparr>) ''2024-01-01T00:16:28'' (Val ''2024-01-01T00:16:30''),
       stored Absent ''10.0.0.9'' (Val \<lparr>current = Val 2000\<rparr>) ''2024-01-01T00:16:28'' (Val ''2024-01-01T00:16:30''),
       stored (Val ''a1'') ''10.0.0.2'' (Val \<lparr>current = Val 2000\<rparr>) ''2024-01-01T00:16:29'' (Val ''2024-01-01T00:16:30'')]) ''a1'' = Some ''10.0.0.2''
   \<and> map_of (ip_by_agent
      [stored (Val ''a1'') ''10.0.0.1'' (Val \<lparr>current = Val 2000\<rparr>) ''2024-01-01T00:16:28'' (Val ''2024-01-01T00:16:30''),
       stored Absent ''10.0.0.9'' (Val \<lparr>current = Val 2000\<rparr>) ''2024-01-01T00:16:28'' (Val ''2024-01-01T00:16:30''),
       stored (Val ''a1'') ''10.0.0.2'' (Val \<lparr>current = Val 2000\<rparr>) ''2024-01-01T00:16:29'' (Val ''2024-01-01T00:16:30'')]) ''10.0.0.9'' = Some ''10.0.0.9''
   \<and> ip_activity
      [stored (Val ''a1'') ''10.0.0.1'' (Val \<lparr>current = Val 2000\<rparr>) ''2024-01-01T00:16:28'' (Val ''2024-01-01T00:16:30''),
       stored Absent ''10.0.0.9'' (Val \<lparr>current = Val 2000\<rparr>) ''2024-01-01T00:16:28'' (Val ''2024-01-01T00:16:30''),
       stored (Val ''a1'') ''10.0.0.2'' (Val \<lparr>current = Val 2000\<rparr>) ''2024-01-01T00:16:29'' (Val ''2024-01-01T00:16:30'')] = ([''10.0.0.2'', ''10.0.0.9''], [1, 1])"
  using distribution_counts_agent_once [of
      "stored (Val ''a1'') ''10.0.0.1'' (Val \<lparr>current = Val 2000\<rparr>) ''2024-01-01T00:16:28'' (Val ''2024-01-01T00:16:30'')"
      "[stored (Val ''a1'') ''10.0.0.1'' (Val \<lparr>current = Val 2000\<rparr>) ''2024-01-01T00:16:28'' (Val ''2024-01-01T00:16:30''),
       stored Absent ''10.0.0.9'' (Val \<lparr>current = Val 2000\<rparr>) ''2024-01-01T00:16:28'' (Val ''2024-01-01T00:16:30''),
       stored (Val ''a1'') ''10.0.0.2'' (Val \<lparr>current = Val 2000\<rparr>) ''2024-01-01T00:16:29'' (Val ''2024-01-01T00:16:30'')]"
      "''a1''" "''10.0.0.2''" "Some ''Linux''"]
    distribution_counts_agent_once [of
      "stored Absent ''10.0.0.9'' (Val \<lparr>current = Val 2000\<rparr>) ''2024-01-01T00:16:28'' (Val ''2024-01-01T00:16:30'')"
      "[stored (Val ''a1'') ''10.0.0.1'' (Val \<lparr>current = Val 2000\<rparr>) ''2024-01-01T00:16:28'' (Val ''2024-01-01T00:16:30''),
       stored Absent ''10.0.0.9'' (Val \<lparr>current = Val 2000\<rparr>) ''2024-01-01T00:16:28'' (Val ''2024-01-01T00:16:30''),
       stored (Val ''a1'') ''10.0.0.2'' (Val \<lparr>current = Val 2000\<rparr>) ''2024-01-01T00:16:29'' (Val ''2024-01-01T00:16:30'')]"
      "''10.0.0.9''" "''10.0.0.9''" "Some ''Linux''"]
  by (simp add: eval_defs)

end
